theory Spec2Isabelle
  imports Main "HOL-Library.Multiset" "HOL-Library.Sublist"
begin

section \<open>Data model of the DNS performance tester\<close>

text \<open>
  \<^verbatim>\<open>time.Duration\<close> is a signed 64-bit count of nanoseconds. It is modelled as an
  \<open>int\<close> with the wrap-around of the 64-bit addition written out; \<^verbatim>\<open>time.Time\<close>
  is an instant in nanoseconds. Go's integer division truncates towards zero and panics
  on a zero divisor.
\<close>

type_synonym duration = int
type_synonym instant = int

definition wrap64 :: "int \<Rightarrow> int" where
  "wrap64 x = (x + 2 ^ 63) mod 2 ^ 64 - 2 ^ 63"

definition sat64 :: "int \<Rightarrow> int" where
  "sat64 x = (if x < - (2 ^ 63) then - (2 ^ 63) else if 2 ^ 63 - 1 < x then 2 ^ 63 - 1 else x)"

definition go_quot :: "int \<Rightarrow> int \<Rightarrow> int" where
  "go_quot a b = sgn a * sgn b * (\<bar>a\<bar> div \<bar>b\<bar>)"

text \<open>The run-time panics the modelled functions can raise.\<close>

datatype panic = IntegerDivideByZero | MakesliceCapOutOfRange | NegativeWaitGroupCounter

text \<open>
  Error values. The first two are the wrapped errors of \<^verbatim>\<open>PerformDNSLookup\<close>, the third
  the wrapped error of \<^verbatim>\<open>writeResultToCsv\<close>, the last the error of
  \<^verbatim>\<open>NewDnsTestContext\<close>; the string is the text of the underlying library error.
\<close>

datatype go_error =
    CreateUpstreamFailed string
  | ExchangeFailed string
  | CsvWriteFailed string
  | ContextInitFailed string

record Config =
  Domains :: "string list"
  DNSServers :: "string list"
  TestCount :: int
  QueryInterval :: duration
  Concurrency :: int
  LogToFile :: bool
  SaveCsv :: bool
  TestRounds :: int

record DnsTestResult =
  Domain :: string
  Server :: string
  Timestamp :: instant
  Latency :: duration

record DnsWorkItem =
  wDomain :: string
  wDNSServer :: string

text \<open>
  One constructor for each \<^verbatim>\<open>Printf\<close> of the program, carrying the arguments of the
  format string in their order.
\<close>

datatype log_line =
    LogQueryError string string int go_error
  | LogLatency string string int duration
  | LogItemError string string go_error
  | LogAverage string string duration
  | LogCsvError go_error
  | LogRoundDone int

text \<open>
  The collaborators outside the program are oracles, fixed for one execution: the clock
  gives the reading of its k-th access, the upstream gives what the n-th lookup meets
  (the address is refused, the exchange fails, or a reply arrives), the CSV writer gives
  the error of its k-th \<^verbatim>\<open>Write\<close>, if any, and the provisioning of the sinks gives the
  error of \<^verbatim>\<open>NewDnsTestContext\<close> in a round, if any.
\<close>

datatype exchange = AddressRefused string | ExchangeBroken string | Reply

record env =
  clock :: "nat \<Rightarrow> instant"
  upstream :: "nat \<Rightarrow> string \<Rightarrow> string \<Rightarrow> exchange"
  csv_sink :: "nat \<Rightarrow> string option"
  context_init :: "int \<Rightarrow> string option"

text \<open>
  The state the program acts on: how often the clock was read, how many lookups were
  started, the durations slept, the lines handed to the logger, the records the CSV
  writer accepted and the number of records it was offered.
\<close>

record world =
  reads :: nat
  lookups :: nat
  slept :: "duration list"
  logged :: "log_line list"
  csv_rows :: "DnsTestResult list"
  csv_writes :: nat

definition logPrintf :: "log_line \<Rightarrow> world \<Rightarrow> world" where
  "logPrintf l w = w\<lparr>logged := logged w @ [l]\<rparr>"

definition timeSleep :: "duration \<Rightarrow> world \<Rightarrow> world" where
  "timeSleep d w = w\<lparr>slept := slept w @ [d]\<rparr>"

definition timeNow :: "env \<Rightarrow> world \<Rightarrow> instant \<times> world" where
  "timeNow e w = (clock e (reads w), w\<lparr>reads := Suc (reads w)\<rparr>)"

definition timeSince :: "env \<Rightarrow> instant \<Rightarrow> world \<Rightarrow> duration \<times> world" where
  "timeSince e t w = (case timeNow e w of (n, w') \<Rightarrow> (sat64 (n - t), w'))"

section \<open>The sample runner\<close>

text \<open>
  \<^verbatim>\<open>PerformDNSLookup\<close>: the start time is read first; either failure returns before the
  elapsed time is taken.
\<close>

definition PerformDNSLookup :: "env \<Rightarrow> string \<Rightarrow> string \<Rightarrow> world \<Rightarrow> (go_error + duration) \<times> world" where
  "PerformDNSLookup e domain dnsServer w =
     (case timeNow e w of (startTime, w1) \<Rightarrow>
        let w2 = w1\<lparr>lookups := Suc (lookups w1)\<rparr> in
        (case upstream e (lookups w1) domain dnsServer of
           AddressRefused m \<Rightarrow> (Inl (CreateUpstreamFailed m), w2)
         | ExchangeBroken m \<Rightarrow> (Inl (ExchangeFailed m), w2)
         | Reply \<Rightarrow> (case timeSince e startTime w2 of (elapsed, w3) \<Rightarrow> (Inr elapsed, w3))))"

text \<open>\<^verbatim>\<open>calculateAverageDelay\<close>: the sum wraps as \<^verbatim>\<open>int64\<close> does, the division panics on an empty slice.\<close>

fun sum_delays :: "duration \<Rightarrow> duration list \<Rightarrow> duration" where
  "sum_delays s [] = s"
| "sum_delays s (delay # delays) = sum_delays (wrap64 (s + delay)) delays"

definition calculateAverageDelay :: "duration list \<Rightarrow> panic + duration" where
  "calculateAverageDelay delays =
     (let s = sum_delays 0 delays; n = int (length delays)
      in if n = 0 then Inl IntegerDivideByZero else Inr (go_quot s n))"

text \<open>The loop of \<^verbatim>\<open>StartAndRecordLatencies\<close>, from sample \<open>i\<close> on.\<close>

function sample_loop ::
  "env \<Rightarrow> string \<Rightarrow> string \<Rightarrow> int \<Rightarrow> duration \<Rightarrow> int \<Rightarrow> duration list \<Rightarrow> world \<Rightarrow> duration list \<times> world" where
  "sample_loop e domain dnsServer cnt interval i delays w =
     (if i \<le> cnt then
        (case PerformDNSLookup e domain dnsServer w of
           (Inl err, w1) \<Rightarrow>
             sample_loop e domain dnsServer cnt interval (i + 1) delays
               (logPrintf (LogQueryError domain dnsServer i err) w1)
         | (Inr latency, w1) \<Rightarrow>
             sample_loop e domain dnsServer cnt interval (i + 1) (delays @ [latency])
               (timeSleep interval (logPrintf (LogLatency domain dnsServer i latency) w1)))
      else (delays, w))"
  by pat_completeness auto
termination
  by (relation "measure (\<lambda>(e, domain, dnsServer, cnt, interval, i, delays, w). nat (cnt + 1 - i))") auto

declare sample_loop.simps [simp del]

text \<open>
  \<^verbatim>\<open>StartAndRecordLatencies\<close>. \<^verbatim>\<open>make([]time.Duration, 0, count)\<close> panics on a negative
  capacity. The third component of the result is the returned \<^verbatim>\<open>error\<close>.
\<close>

definition StartAndRecordLatencies ::
  "env \<Rightarrow> string \<Rightarrow> string \<Rightarrow> int \<Rightarrow> duration \<Rightarrow> world
     \<Rightarrow> (panic + duration \<times> duration list \<times> go_error option) \<times> world" where
  "StartAndRecordLatencies e domain dnsServer cnt interval w =
     (if cnt < 0 then (Inl MakesliceCapOutOfRange, w)
      else
        (case sample_loop e domain dnsServer cnt interval 1 [] w of (delays, w1) \<Rightarrow>
           (case calculateAverageDelay delays of
              Inl p \<Rightarrow> (Inl p, w1)
            | Inr avgDelay \<Rightarrow> (Inr (avgDelay, delays, None), w1))))"

section \<open>The worker's handling of one work item\<close>

text \<open>
  \<^verbatim>\<open>writeResultToCsv\<close> hands one record to the CSV writer. The two formatted fields are
  functions of the timestamp and the latency; the accepted record is kept unformatted.
\<close>

definition writeResultToCsv :: "env \<Rightarrow> DnsTestResult \<Rightarrow> world \<Rightarrow> go_error option \<times> world" where
  "writeResultToCsv e result w =
     (case csv_sink e (csv_writes w) of
        Some m \<Rightarrow> (Some (CsvWriteFailed m), w\<lparr>csv_writes := Suc (csv_writes w)\<rparr>)
      | None \<Rightarrow> (None, w\<lparr>csv_rows := csv_rows w @ [result], csv_writes := Suc (csv_writes w)\<rparr>))"

text \<open>The loop over \<^verbatim>\<open>delays\<close> in the worker: one record per delay, stamped when it is built.\<close>

fun save_delays :: "env \<Rightarrow> DnsWorkItem \<Rightarrow> duration list \<Rightarrow> world \<Rightarrow> world" where
  "save_delays e work [] w = w"
| "save_delays e work (delay # delays) w =
     (case timeNow e w of (now, w1) \<Rightarrow>
        (case writeResultToCsv e
                \<lparr>Domain = wDomain work, Server = wDNSServer work, Timestamp = now, Latency = delay\<rparr> w1 of
           (Some err, w2) \<Rightarrow> save_delays e work delays (logPrintf (LogCsvError err) w2)
         | (None, w2) \<Rightarrow> save_delays e work delays w2))"

text \<open>The body of the worker's \<^verbatim>\<open>for work := range workQueue\<close>. A panic ends the process.\<close>

definition process_item :: "env \<Rightarrow> Config \<Rightarrow> DnsWorkItem \<Rightarrow> world \<Rightarrow> (panic + unit) \<times> world" where
  "process_item e cfg work w =
     (case StartAndRecordLatencies e (wDomain work) (wDNSServer work) (TestCount cfg) (QueryInterval cfg) w of
        (Inl p, w1) \<Rightarrow> (Inl p, w1)
      | (Inr (avgDelay, delays, Some err), w1) \<Rightarrow>
          (Inr (), logPrintf (LogItemError (wDomain work) (wDNSServer work) err) w1)
      | (Inr (avgDelay, delays, None), w1) \<Rightarrow>
          (let w2 = logPrintf (LogAverage (wDomain work) (wDNSServer work) avgDelay) w1
           in if SaveCsv cfg then (Inr (), save_delays e work delays w2) else (Inr (), w2)))"

section \<open>The work-item matrix\<close>

text \<open>
  The two nested loops of \<^verbatim>\<open>performTestRound\<close> that send the items; the accumulator is the
  sequence of items sent so far.
\<close>

fun send_servers :: "string \<Rightarrow> string list \<Rightarrow> DnsWorkItem list \<Rightarrow> DnsWorkItem list" where
  "send_servers domain [] sent = sent"
| "send_servers domain (dnsServer # servers) sent =
     send_servers domain servers (sent @ [\<lparr>wDomain = domain, wDNSServer = dnsServer\<rparr>])"

fun send_domains :: "string list \<Rightarrow> string list \<Rightarrow> DnsWorkItem list \<Rightarrow> DnsWorkItem list" where
  "send_domains [] servers sent = sent"
| "send_domains (domain # domains) servers sent =
     send_domains domains servers (send_servers domain servers sent)"

definition work_matrix :: "Config \<Rightarrow> DnsWorkItem list" where
  "work_matrix cfg = send_domains (Domains cfg) (DNSServers cfg) []"

section \<open>Rounds and the worker pool\<close>

text \<open>
  The goroutines of \<^verbatim>\<open>performTestRound\<close> and the loop of \<^verbatim>\<open>main\<close> as a transition
  system. A worker waits at \<^verbatim>\<open>range workQueue\<close>, holds an item, or has returned (its
  \<^verbatim>\<open>wg.Done\<close> has run). The main goroutine is before an iteration of its loop, sending
  the items that remain, in \<^verbatim>\<open>wg.Wait\<close>, behind the completion line (flushing), or the
  process has ended: on the end of the loop, on \<^verbatim>\<open>log.Fatalf\<close>, or on a panic.
  The channel is a queue with room for the whole matrix, so a send never blocks; a
  receive takes the head. The trace records, next to the state, what happened in which
  round and to which worker.
\<close>

datatype worker = Idle | Busy DnsWorkItem | Returned

datatype main_state =
    Between
  | Sending "DnsWorkItem list"
  | Waiting
  | Flushing
  | Exited
  | Fatal go_error
  | Crashed panic

datatype event =
    Dequeued int nat DnsWorkItem
  | Processed int nat DnsWorkItem
  | WorkerReturned int nat
  | RoundCompleted int

record pool =
  round_no :: int
  main_at :: main_state
  queue :: "DnsWorkItem list"
  closed :: bool
  workers :: "worker list"
  trace :: "event list"
  wld :: world

definition fresh :: world where
  "fresh = \<lparr>reads = 0, lookups = 0, slept = [], logged = [], csv_rows = [], csv_writes = 0\<rparr>"

definition initial :: pool where
  "initial =
     \<lparr>round_no = 1, main_at = Between, queue = [], closed = False, workers = [], trace = [],
      wld = fresh\<rparr>"

text \<open>The goroutines of a round exist from their start to the return of \<^verbatim>\<open>wg.Wait\<close>.\<close>

fun running :: "main_state \<Rightarrow> bool" where
  "running (Sending items) = True"
| "running Waiting = True"
| "running m = False"

datatype action = Start | Send | Close | Recv nat | Work nat | Return nat | Complete | Next

fun enabled :: "action \<Rightarrow> pool \<Rightarrow> bool" where
  "enabled Start s = (main_at s = Between)"
| "enabled Send s = (case main_at s of Sending (item # items) \<Rightarrow> True | _ \<Rightarrow> False)"
| "enabled Close s = (main_at s = Sending [])"
| "enabled (Recv k) s =
     (running (main_at s) \<and> k < length (workers s) \<and> workers s ! k = Idle \<and> queue s \<noteq> [])"
| "enabled (Work k) s =
     (running (main_at s) \<and> k < length (workers s) \<and>
      (case workers s ! k of Busy item \<Rightarrow> True | _ \<Rightarrow> False))"
| "enabled (Return k) s =
     (running (main_at s) \<and> k < length (workers s) \<and> workers s ! k = Idle \<and>
      queue s = [] \<and> closed s)"
| "enabled Complete s = (main_at s = Waiting \<and> list_all (\<lambda>x. x = Returned) (workers s))"
| "enabled Next s = (main_at s = Flushing)"

text \<open>
  \<open>Start\<close> is the head of the loop of \<^verbatim>\<open>main\<close>, \<^verbatim>\<open>NewDnsTestContext\<close>, and
  \<^verbatim>\<open>performTestRound\<close> up to the start of its goroutines; \<^verbatim>\<open>wg.Add\<close> panics on a
  negative counter. \<open>Work\<close> is what a worker does with the item it holds.
  \<open>Complete\<close> is the return of \<^verbatim>\<open>wg.Wait\<close> and the completion line.
\<close>

definition start_round :: "env \<Rightarrow> Config \<Rightarrow> pool \<Rightarrow> pool" where
  "start_round e cfg s =
     (if TestRounds cfg < round_no s then s\<lparr>main_at := Exited\<rparr>
      else
        (case context_init e (round_no s) of
           Some m \<Rightarrow> s\<lparr>main_at := Fatal (ContextInitFailed m)\<rparr>
         | None \<Rightarrow>
             if Concurrency cfg < 0 then s\<lparr>main_at := Crashed NegativeWaitGroupCounter\<rparr>
             else s\<lparr>main_at := Sending (work_matrix cfg), queue := [], closed := False,
                    workers := replicate (nat (Concurrency cfg)) Idle\<rparr>))"

definition work_on :: "env \<Rightarrow> Config \<Rightarrow> nat \<Rightarrow> DnsWorkItem \<Rightarrow> pool \<Rightarrow> pool" where
  "work_on e cfg k item s =
     (case process_item e cfg item (wld s) of
        (Inl p, w') \<Rightarrow> s\<lparr>main_at := Crashed p, wld := w'\<rparr>
      | (Inr u, w') \<Rightarrow>
          s\<lparr>workers := (workers s)[k := Idle], wld := w',
            trace := trace s @ [Processed (round_no s) k item]\<rparr>)"

fun perform :: "env \<Rightarrow> Config \<Rightarrow> action \<Rightarrow> pool \<Rightarrow> pool" where
  "perform e cfg Start s = start_round e cfg s"
| "perform e cfg Send s =
     (case main_at s of
        Sending (item # items) \<Rightarrow> s\<lparr>main_at := Sending items, queue := queue s @ [item]\<rparr>
      | _ \<Rightarrow> s)"
| "perform e cfg Close s = s\<lparr>main_at := Waiting, closed := True\<rparr>"
| "perform e cfg (Recv k) s =
     (case queue s of
        [] \<Rightarrow> s
      | item # items \<Rightarrow>
          s\<lparr>queue := items, workers := (workers s)[k := Busy item],
            trace := trace s @ [Dequeued (round_no s) k item]\<rparr>)"
| "perform e cfg (Work k) s =
     (case workers s ! k of Busy item \<Rightarrow> work_on e cfg k item s | _ \<Rightarrow> s)"
| "perform e cfg (Return k) s =
     s\<lparr>workers := (workers s)[k := Returned],
       trace := trace s @ [WorkerReturned (round_no s) k]\<rparr>"
| "perform e cfg Complete s =
     s\<lparr>main_at := Flushing, wld := logPrintf (LogRoundDone (round_no s)) (wld s),
       trace := trace s @ [RoundCompleted (round_no s)]\<rparr>"
| "perform e cfg Next s = s\<lparr>main_at := Between, round_no := round_no s + 1\<rparr>"

inductive reachable :: "env \<Rightarrow> Config \<Rightarrow> pool \<Rightarrow> bool" for e :: env and cfg :: Config where
  reachable_initial: "reachable e cfg initial"
| reachable_step: "reachable e cfg s \<Longrightarrow> enabled a s \<Longrightarrow> reachable e cfg (perform e cfg a s)"

text \<open>One schedule, action by action; \<open>None\<close> when an action is not enabled.\<close>

fun execute :: "env \<Rightarrow> Config \<Rightarrow> action list \<Rightarrow> pool \<Rightarrow> pool option" where
  "execute e cfg [] s = Some s"
| "execute e cfg (a # as) s = (if enabled a s then execute e cfg as (perform e cfg a s) else None)"

text \<open>The items of the events of one round, and of one worker in it.\<close>

fun dequeued :: "int \<Rightarrow> event list \<Rightarrow> DnsWorkItem list" where
  "dequeued r [] = []"
| "dequeued r (Dequeued r' k item # evs) = (if r' = r then item # dequeued r evs else dequeued r evs)"
| "dequeued r (ev # evs) = dequeued r evs"

fun processed_by :: "int \<Rightarrow> nat \<Rightarrow> event list \<Rightarrow> DnsWorkItem list" where
  "processed_by r k [] = []"
| "processed_by r k (Processed r' k' item # evs) =
     (if r' = r \<and> k' = k then item # processed_by r k evs else processed_by r k evs)"
| "processed_by r k (ev # evs) = processed_by r k evs"

section \<open>What the specification says of the sample runner\<close>

text \<open>
  The results the resolver gives to \<open>n\<close> calls in a row, and the latencies of those that
  succeed: the samples the average and the records are said to range over.
\<close>

fun resolver_results :: "env \<Rightarrow> string \<Rightarrow> string \<Rightarrow> nat \<Rightarrow> world \<Rightarrow> (go_error + duration) list" where
  "resolver_results e domain dnsServer 0 w = []"
| "resolver_results e domain dnsServer (Suc n) w =
     (case PerformDNSLookup e domain dnsServer w of
        (r, w') \<Rightarrow> r # resolver_results e domain dnsServer n w')"

fun successful :: "(go_error + duration) list \<Rightarrow> duration list" where
  "successful [] = []"
| "successful (Inl err # rs) = successful rs"
| "successful (Inr latency # rs) = latency # successful rs"

text \<open>The Cartesian product of the specification, domain-major.\<close>

definition cartesian :: "string list \<Rightarrow> string list \<Rightarrow> DnsWorkItem list" where
  "cartesian ds ss = map (\<lambda>(d, s). \<lparr>wDomain = d, wDNSServer = s\<rparr>) (List.product ds ss)"



section \<open>Classifying log lines\<close>


section \<open>Example configurations\<close>

text \<open>
  A clock that advances by a millisecond from one reading to the next, with every exchange
  failing, with the second and the fourth lookup failing, and with the first lookup
  failing; and a clock under which three lookups take 10, 20 and 30 milliseconds.
\<close>

definition env_all_fail :: env where
  "env_all_fail =
     \<lparr>clock = (\<lambda>k. int k * 1000000), upstream = (\<lambda>n d s. ExchangeBroken ''i/o timeout''),
      csv_sink = (\<lambda>k. None), context_init = (\<lambda>r. None)\<rparr>"

definition env_two_fail :: env where
  "env_two_fail =
     \<lparr>clock = (\<lambda>k. int k * 1000000),
      upstream = (\<lambda>n d s. if n = 1 \<or> n = 3 then ExchangeBroken ''i/o timeout'' else Reply),
      csv_sink = (\<lambda>k. None), context_init = (\<lambda>r. None)\<rparr>"

definition env_first_fails :: env where
  "env_first_fails =
     \<lparr>clock = (\<lambda>k. int k * 1000000),
      upstream = (\<lambda>n d s. if n = 0 then ExchangeBroken ''i/o timeout'' else Reply),
      csv_sink = (\<lambda>k. None), context_init = (\<lambda>r. None)\<rparr>"


definition item_a :: DnsWorkItem where
  "item_a = \<lparr>wDomain = ''a.com'', wDNSServer = ''8.8.8.8''\<rparr>"

definition item_b :: DnsWorkItem where
  "item_b = \<lparr>wDomain = ''b.com'', wDNSServer = ''8.8.8.8''\<rparr>"


definition cfg_five :: Config where
  "cfg_five =
     \<lparr>Domains = [''a.com''], DNSServers = [''8.8.8.8''], TestCount = 5,
      QueryInterval = 0, Concurrency = 1, LogToFile = False, SaveCsv = True, TestRounds = 1\<rparr>"

definition cfg_two_items :: Config where
  "cfg_two_items =
     \<lparr>Domains = [''a.com'', ''b.com''], DNSServers = [''8.8.8.8''], TestCount = 1,
      QueryInterval = 0, Concurrency = 1, LogToFile = False, SaveCsv = True, TestRounds = 2\<rparr>"

definition cfg_dup :: Config where
  "cfg_dup =
     \<lparr>Domains = [''a.com'', ''a.com''], DNSServers = [''8.8.8.8'', ''1.1.1.1''], TestCount = 1,
      QueryInterval = 0, Concurrency = 1, LogToFile = False, SaveCsv = True, TestRounds = 1\<rparr>"

section \<open>Properties of the work-item matrix\<close>

lemma send_servers_append:
  "send_servers d ss sent = sent @ map (\<lambda>s. \<lparr>wDomain = d, wDNSServer = s\<rparr>) ss"
  by (induction ss arbitrary: sent) simp_all

lemma send_domains_append: "send_domains ds ss sent = sent @ cartesian ds ss"
  by (induction ds arbitrary: sent) (simp_all add: cartesian_def send_servers_append)

lemma cartesian_nth:
  assumes "i < length ds" and "j < length ss"
  shows "cartesian ds ss ! (i * length ss + j) = \<lparr>wDomain = ds ! i, wDNSServer = ss ! j\<rparr>"
proof -
  have bound: "i * length ss + j < length ds * length ss"
  proof -
    have "i * length ss + j < i * length ss + length ss" using assms(2) by simp
    also have "\<dots> = Suc i * length ss" by simp
    also have "\<dots> \<le> length ds * length ss" using assms(1) by (intro mult_le_mono1) simp
    finally show ?thesis .
  qed
  have "cartesian ds ss ! (i * length ss + j) =
        (\<lambda>(d, s). \<lparr>wDomain = d, wDNSServer = s\<rparr>) (List.product ds ss ! (i * length ss + j))"
    unfolding cartesian_def using bound by simp
  also have "List.product ds ss ! (i * length ss + j) = (ds ! i, ss ! j)"
  proof -
    have "(i * length ss + j) div length ss = i" and "(i * length ss + j) mod length ss = j"
      using assms(2) div_mult_self3 [of "length ss" i j] mod_mult_self3 [of i "length ss" j]
      by (cases ss; simp)+
    then show ?thesis using bound by (simp add: product_nth)
  qed
  finally show ?thesis by simp
qed

text \<open>
  C5. For all sequences of domains and of servers, the items sent in a round are the
  Cartesian product of the two: as many items as the product of the two lengths, the item
  of the i-th domain and the j-th server at position i * |servers| + j (for a fixed domain
  the servers run in the inner loop), every pair kept, also one that repeats.
\<close>

theorem work_matrix_is_product:
  "work_matrix cfg = cartesian (Domains cfg) (DNSServers cfg) \<and>
   length (work_matrix cfg) = length (Domains cfg) * length (DNSServers cfg) \<and>
   (\<forall>i < length (Domains cfg). \<forall>j < length (DNSServers cfg).
      work_matrix cfg ! (i * length (DNSServers cfg) + j) =
        \<lparr>wDomain = Domains cfg ! i, wDNSServer = DNSServers cfg ! j\<rparr>)"
  by (simp add: work_matrix_def send_domains_append cartesian_nth) (simp add: cartesian_def)

theorem work_matrix_is_product_witness:
  "work_matrix cfg_dup =
     [\<lparr>wDomain = ''a.com'', wDNSServer = ''8.8.8.8''\<rparr>, \<lparr>wDomain = ''a.com'', wDNSServer = ''1.1.1.1''\<rparr>,
      \<lparr>wDomain = ''a.com'', wDNSServer = ''8.8.8.8''\<rparr>, \<lparr>wDomain = ''a.com'', wDNSServer = ''1.1.1.1''\<rparr>] \<and>
   length (work_matrix cfg_dup) = 4 \<and>
   (1::nat) < length (Domains cfg_dup) \<and> (0::nat) < length (DNSServers cfg_dup) \<and>
   work_matrix cfg_dup ! 2 = \<lparr>wDomain = ''a.com'', wDNSServer = ''8.8.8.8''\<rparr>"
  using work_matrix_is_product [of cfg_dup]
  by (simp add: cfg_dup_def cartesian_def)

section \<open>What the sample runner and the worker write to the log\<close>






section \<open>The sample runner keeps the successful samples\<close>

lemma PerformDNSLookup_frame:
  "PerformDNSLookup e d s (w\<lparr>logged := l\<rparr>) =
     (case PerformDNSLookup e d s w of (r, w') \<Rightarrow> (r, w'\<lparr>logged := l\<rparr>))"
  "PerformDNSLookup e d s (w\<lparr>slept := z\<rparr>) =
     (case PerformDNSLookup e d s w of (r, w') \<Rightarrow> (r, w'\<lparr>slept := z\<rparr>))"
  by (auto simp: PerformDNSLookup_def timeNow_def timeSince_def Let_def split: exchange.splits)

lemma resolver_results_frame:
  "resolver_results e d s n (w\<lparr>logged := l\<rparr>) = resolver_results e d s n w"
  "resolver_results e d s n (w\<lparr>slept := z\<rparr>) = resolver_results e d s n w"
  by (induction n arbitrary: w l z) (auto simp: PerformDNSLookup_frame split: prod.splits)

lemma successful_append: "successful (rs @ rs') = successful rs @ successful rs'"
  by (induction rs rule: successful.induct) simp_all

lemma sample_loop_delays:
  "fst (sample_loop e d s cnt iv i ds w) =
     ds @ successful (resolver_results e d s (nat (cnt + 1 - i)) w)"
proof (induction e d s cnt iv i ds w rule: sample_loop.induct)
  case (1 e d s cnt iv i ds w)
  show ?case
  proof (cases "i \<le> cnt")
    case False
    then show ?thesis by (subst sample_loop.simps) simp
  next
    case True
    then have n: "nat (cnt + 1 - i) = Suc (nat (cnt + 1 - (i + 1)))" by simp
    obtain r w1 where P: "PerformDNSLookup e d s w = (r, w1)" by fastforce
    show ?thesis
    proof (cases r)
      case (Inl err)
      with True P "1.IH"(1) [of r w1 err] show ?thesis
        by (subst sample_loop.simps, subst n) (simp add: logPrintf_def resolver_results_frame)
    next
      case (Inr latency)
      with True P "1.IH"(2) [of r w1 latency] show ?thesis
        by (subst sample_loop.simps, subst n)
           (simp add: logPrintf_def timeSleep_def resolver_results_frame)
    qed
  qed
qed





lemma StartAndRecordLatencies_panics:
  assumes "0 \<le> cnt" and "successful (resolver_results e d s (nat cnt) w) = []"
  shows "fst (StartAndRecordLatencies e d s cnt iv w) = Inl IntegerDivideByZero"
  using assms sample_loop_delays [of e d s cnt iv 1 "[]" w]
  by (auto simp: StartAndRecordLatencies_def calculateAverageDelay_def Let_def
      split: if_splits prod.splits sum.splits)

section \<open>Clock readings of the samples and of the records\<close>









section \<open>The runner on all inputs, and the worker behind it\<close>

lemmas run_defs = StartAndRecordLatencies_def sample_loop.simps PerformDNSLookup_def timeNow_def
  timeSince_def logPrintf_def timeSleep_def calculateAverageDelay_def sat64_def wrap64_def go_quot_def
  fresh_def process_item_def writeResultToCsv_def Let_def


text \<open>
  C1. Where every sample of a work item fails, the runner is to return a defined empty
  result and tell it apart. With three samples that all fail, \<^verbatim>\<open>StartAndRecordLatencies\<close>
  logs the three failures and then panics in the division of \<^verbatim>\<open>calculateAverageDelay\<close>:
  nothing is returned.
\<close>

theorem all_samples_fail_panics:
  "StartAndRecordLatencies env_all_fail ''a.com'' ''8.8.8.8'' 3 0 fresh =
     (Inl IntegerDivideByZero,
      fresh\<lparr>reads := 3, lookups := 3,
            logged := [LogQueryError ''a.com'' ''8.8.8.8'' 1 (ExchangeFailed ''i/o timeout''),
                       LogQueryError ''a.com'' ''8.8.8.8'' 2 (ExchangeFailed ''i/o timeout''),
                       LogQueryError ''a.com'' ''8.8.8.8'' 3 (ExchangeFailed ''i/o timeout'')]\<rparr>)"
  by (simp add: run_defs env_all_fail_def)

text \<open>
  C2. With a sample count of zero the resolver is not called and the world is left as it
  was, but the runner does not return zero samples: the division by the length of the
  empty slice panics.
\<close>

theorem zero_samples_panics:
  "StartAndRecordLatencies e domain dnsServer 0 interval w = (Inl IntegerDivideByZero, w) \<and>
   resolver_results e domain dnsServer (nat 0) w = []"
  by (simp add: StartAndRecordLatencies_def calculateAverageDelay_def sample_loop.simps)






text \<open>Five samples of which the second and the fourth fail: three latencies, three records.\<close>

lemma two_of_five_fail_example:
  "successful (resolver_results env_two_fail ''a.com'' ''8.8.8.8'' 5 fresh) = [1000000, 1000000, 1000000] \<and>
   length (resolver_results env_two_fail ''a.com'' ''8.8.8.8'' 5 fresh) = 5 \<and>
   fst (StartAndRecordLatencies env_two_fail ''a.com'' ''8.8.8.8'' 5 0 fresh) =
     Inr (1000000, [1000000, 1000000, 1000000], None) \<and>
   length (csv_rows (snd (process_item env_two_fail cfg_five item_a fresh))) = 3"
  by (simp add: run_defs env_two_fail_def item_a_def cfg_five_def eval_nat_numeral)



end
